theory Spec2Isabelle
  imports Complex_Main "HOL-Library.Word" "HOL-Library.Multiset"
begin

section \<open>Shared primitive types\<close>

text \<open>
  The Go sources store \<^verbatim>\<open>float64\<close> amounts without computing on them in the functions
  embedded here (they are copied into struct fields and printed); an amount is modelled as a
  real number. A \<^verbatim>\<open>time.Time\<close> is the number of nanoseconds since the Unix epoch, which
  is what \<^verbatim>\<open>UnixNano()\<close> reads back. A \<^verbatim>\<open>uuid.UUID\<close> is a 16-byte array, i.e. a 128-bit
  word. A Go \<^verbatim>\<open>error\<close> returned by a driver is an opaque value supplied by the environment.
\<close>

type_synonym float64 = real
type_synonym Time = int
type_synonym UUID = "128 word"

datatype error = DriverError string | DuplicateKeyError | ErrNoDocuments

datatype panic = NilPointerDereference

section \<open>factory.go: the bet factory\<close>

text \<open>
  \<^verbatim>\<open>Bet\<close> is an interface with the two implementations \<^verbatim>\<open>*FootballBet\<close> and
  \<^verbatim>\<open>*BasketballBet\<close>. A value of interface type is either nil or one of the two, so the
  result of \<^verbatim>\<open>CreateBet\<close> is a \<open>Bet option\<close> with \<open>None\<close> for nil.
\<close>

datatype Bet = FootballBet | BasketballBet

definition CreateBet :: "string \<Rightarrow> Bet option" where
  "CreateBet betType =
     (if betType = ''football'' then Some FootballBet
      else if betType = ''basketball'' then Some BasketballBet
      else None)"

text \<open>
  \<^verbatim>\<open>PlaceBet\<close> called through the interface value. A method call on a nil interface panics
  with a nil pointer dereference. The rendering of \<^verbatim>\<open>%.2f\<close> belongs to the \<^verbatim>\<open>fmt\<close>
  package and is the parameter \<open>fmt2f\<close>.
\<close>

definition Bet_PlaceBet :: "(float64 \<Rightarrow> string) \<Rightarrow> Bet option \<Rightarrow> float64 \<Rightarrow> panic + string" where
  "Bet_PlaceBet fmt2f b amount =
     (case b of
        None \<Rightarrow> Inl NilPointerDereference
      | Some FootballBet \<Rightarrow> Inr (''Football bet placed: $'' @ fmt2f amount)
      | Some BasketballBet \<Rightarrow> Inr (''Basketball bet placed: $'' @ fmt2f amount))"

section \<open>External collaborators of ticket.go\<close>

subsection \<open>Clock and formatting\<close>

text \<open>
  \<^verbatim>\<open>time.Now()\<close> is an input of the environment: every function below that reads the
  clock takes one argument per reading, in the order in which the source evaluates them.
  \<^verbatim>\<open>Unix()\<close> is the reading in whole seconds, \<^verbatim>\<open>UnixNano()\<close> the reading itself
  (Go leaves it undefined outside the \<^verbatim>\<open>int64\<close> range, years 1678 to 2262).
\<close>

definition Unix :: "Time \<Rightarrow> int" where
  "Unix t = t div 1000000000"

definition UnixNano :: "Time \<Rightarrow> int" where
  "UnixNano t = t"

definition Hour :: int where
  "Hour = 3600 * 1000000000"

text \<open>\<^verbatim>\<open>%d\<close> of \<^verbatim>\<open>fmt.Sprintf\<close>: the decimal digits, with a leading minus sign.\<close>

definition digit :: "nat \<Rightarrow> char" where
  "digit d = ''0123456789'' ! d"

function decimal :: "nat \<Rightarrow> string" where
  "decimal n = (if n < 10 then [digit n] else decimal (n div 10) @ [digit (n mod 10)])"
  by pat_completeness auto
termination
  by (relation "measure (\<lambda>n. n)") auto

declare decimal.simps [simp del]

definition fmt_d :: "int \<Rightarrow> string" where
  "fmt_d i = (if i < 0 then CHR ''-'' # decimal (nat (- i)) else decimal (nat i))"

subsection \<open>A MongoDB collection\<close>

text \<open>
  A collection is the list of its documents in natural order, each as a read decodes it
  into the Go struct. The source only inserts, it never updates or deletes, and for such a
  collection the natural order is the order of insertion. The driver writes a
  \<^verbatim>\<open>time.Time\<close> field as a BSON date, which holds whole milliseconds, so a stored time
  reads back as the instant truncated to the millisecond (\<open>bsonDate\<close>); every other
  field of the structs reads back as written (strings are UTF-8 text, as BSON has them).

  The outcome of \<^verbatim>\<open>InsertOne\<close> is supplied by the environment (\<open>fault\<close>): no fault,
  an error the driver returns when the server has not applied the write (\<open>NotWritten\<close>),
  or an error the driver returns although the server has applied it (\<open>Written\<close>: the
  code sees only the error and cannot tell the two apart). Without a fault the insert is
  refused when a document with the same \<^verbatim>\<open>_id\<close> is already stored (the only unique index
  a collection has unless one is created, and the source creates none), and otherwise the
  document is appended. The result is the returned error and the collection after the call.

  \<^verbatim>\<open>Find\<close> with a filter and no sort option yields the matching documents in natural
  order; \<^verbatim>\<open>cursor.All\<close> decodes them. \<^verbatim>\<open>FindOne\<close> yields the first match or
  \<^verbatim>\<open>ErrNoDocuments\<close>.
\<close>

definition bsonDate :: "Time \<Rightarrow> Time" where
  "bsonDate t = (t div 1000000) * 1000000"

datatype write_fault = NotWritten error | Written error

definition InsertOne ::
  "write_fault option \<Rightarrow> ('d \<Rightarrow> 'k) \<Rightarrow> 'd list \<Rightarrow> 'd \<Rightarrow> error option \<times> 'd list" where
  "InsertOne fault key coll doc =
     (case fault of
        Some (NotWritten e) \<Rightarrow> (Some e, coll)
      | Some (Written e) \<Rightarrow>
          (Some e, if key doc \<in> set (map key coll) then coll else coll @ [doc])
      | None \<Rightarrow>
          if key doc \<in> set (map key coll) then (Some DuplicateKeyError, coll)
          else (None, coll @ [doc]))"

definition Find :: "error option \<Rightarrow> ('d \<Rightarrow> bool) \<Rightarrow> 'd list \<Rightarrow> error + 'd list" where
  "Find fault flt coll = (case fault of Some e \<Rightarrow> Inl e | None \<Rightarrow> Inr (filter flt coll))"

definition cursor_All :: "error option \<Rightarrow> 'd list \<Rightarrow> 'd list \<times> error option" where
  "cursor_All fault cursor = (case fault of Some e \<Rightarrow> ([], Some e) | None \<Rightarrow> (cursor, None))"


section \<open>ticket.go, first declarations: storage strategy, cache, warehouse, factory\<close>

text \<open>
  ticket.go declares \<^verbatim>\<open>LotteryType\<close>, its constants, \<^verbatim>\<open>LotteryTicket\<close> and
  \<^verbatim>\<open>main\<close> twice. The first declarations keep their names; the second ones (from the
  line \<^verbatim>\<open>type LotteryType string\<close> on) carry a prime. \<^verbatim>\<open>TicketStatus\<close> is declared
  once and used by both.
\<close>

type_synonym LotteryType = int

definition DoubleBall :: LotteryType where "DoubleBall = 0"
definition ArrangeV5 :: LotteryType where "ArrangeV5 = 1"
definition ArrangeV3 :: LotteryType where "ArrangeV3 = 2"
definition SuperLotto :: LotteryType where "SuperLotto = 3"
definition SelectNine :: LotteryType where "SelectNine = 4"
definition FootballLottery :: LotteryType where "FootballLottery = 5"
definition BasketballLottery :: LotteryType where "BasketballLottery = 6"
definition SingleMatch :: LotteryType where "SingleMatch = 7"
definition SevenHappy :: LotteryType where "SevenHappy = 8"
definition Happy8 :: LotteryType where "Happy8 = 9"
definition Welfare3D :: LotteryType where "Welfare3D = 10"

datatype TicketStatus = Pending | Winning | Lost | Claimed

record LotteryTicket =
  ID :: string
  UserID :: string
  LotteryType :: LotteryType
  Numbers :: "int list list"
  BetAmount :: float64
  BetTime :: Time
  Multiple :: int
  PlayType :: string
  Status :: TicketStatus

record WinDetail =
  wd_PrizeLevel :: string
  wd_WinnerCount :: int
  wd_PrizeAmount :: float64

record LotteryDrawResult =
  ldr_ID :: string
  ldr_LotteryType :: LotteryType
  DrawDate :: Time
  ldr_WinningNumbers :: "int list"
  ldr_Jackpot :: float64
  WinningDetails :: "WinDetail list"

record MongoDBStorageStrategy =
  ticketColl :: "LotteryTicket list"
  resultColl :: "LotteryDrawResult list"

text \<open>
  A method returning \<^verbatim>\<open>error\<close> and writing to a store returns the error (\<open>None\<close> for
  nil) and the store after the call. What the collection holds of a struct is its stored
  form: the struct with its time field at the precision of a BSON date.
\<close>

definition stored_LotteryTicket :: "LotteryTicket \<Rightarrow> LotteryTicket" where
  "stored_LotteryTicket ticket = ticket\<lparr>BetTime := bsonDate (BetTime ticket)\<rparr>"

definition stored_LotteryDrawResult :: "LotteryDrawResult \<Rightarrow> LotteryDrawResult" where
  "stored_LotteryDrawResult result = result\<lparr>DrawDate := bsonDate (DrawDate result)\<rparr>"

definition MongoDBStorageStrategy_SaveTicket ::
  "write_fault option \<Rightarrow> MongoDBStorageStrategy \<Rightarrow> LotteryTicket
     \<Rightarrow> error option \<times> MongoDBStorageStrategy" where
  "MongoDBStorageStrategy_SaveTicket fault m ticket =
     (case InsertOne fault ID (ticketColl m) (stored_LotteryTicket ticket) of
        (err, coll) \<Rightarrow> (err, m\<lparr>ticketColl := coll\<rparr>))"

definition MongoDBStorageStrategy_SaveDrawResult ::
  "write_fault option \<Rightarrow> MongoDBStorageStrategy \<Rightarrow> LotteryDrawResult
     \<Rightarrow> error option \<times> MongoDBStorageStrategy" where
  "MongoDBStorageStrategy_SaveDrawResult fault m result =
     (case InsertOne fault ldr_ID (resultColl m) (stored_LotteryDrawResult result) of
        (err, coll) \<Rightarrow> (err, m\<lparr>resultColl := coll\<rparr>))"

text \<open>
  \<^verbatim>\<open>FindTicketsByUser\<close> returns \<^verbatim>\<open>(nil, err)\<close> when \<^verbatim>\<open>Find\<close> fails and otherwise
  whatever \<^verbatim>\<open>cursor.All\<close> left in \<^verbatim>\<open>tickets\<close>, with its error.
\<close>

definition MongoDBStorageStrategy_FindTicketsByUser ::
  "error option \<Rightarrow> error option \<Rightarrow> MongoDBStorageStrategy \<Rightarrow> string \<Rightarrow> LotteryTicket list \<times> error option" where
  "MongoDBStorageStrategy_FindTicketsByUser findFault allFault m userID =
     (case Find findFault (\<lambda>t. UserID t = userID) (ticketColl m) of
        Inl err \<Rightarrow> ([], Some err)
      | Inr cursor \<Rightarrow> cursor_All allFault cursor)"

text \<open>
  The Redis client is the map from keys to the stored value and its time to live.
  \<^verbatim>\<open>json.Marshal\<close> is the parameter \<open>marshal\<close>; \<open>setFault\<close> is the outcome of
  \<^verbatim>\<open>Set(...).Err()\<close>.
\<close>

record RedisCacheStrategy =
  client :: "string \<rightharpoonup> string \<times> int"

definition CacheTicket ::
  "(LotteryTicket \<Rightarrow> error + string) \<Rightarrow> error option \<Rightarrow> RedisCacheStrategy \<Rightarrow> LotteryTicket
     \<Rightarrow> error option \<times> RedisCacheStrategy" where
  "CacheTicket marshal setFault r ticket =
     (case marshal ticket of
        Inl err \<Rightarrow> (Some err, r)
      | Inr data \<Rightarrow>
          (case setFault of
             Some err \<Rightarrow> (Some err, r)
           | None \<Rightarrow> (None, r\<lparr>client := (client r)((''ticket:'' @ ID ticket) \<mapsto> (data, 24 * Hour))\<rparr>)))"

record 'pool LotteryDataWarehouse =
  storageStrategy :: MongoDBStorageStrategy
  cacheStrategy :: RedisCacheStrategy
  pgxPool :: 'pool

definition NewLotteryDataWarehouse ::
  "MongoDBStorageStrategy \<Rightarrow> RedisCacheStrategy \<Rightarrow> 'pool \<Rightarrow> 'pool LotteryDataWarehouse" where
  "NewLotteryDataWarehouse s c p = \<lparr>storageStrategy = s, cacheStrategy = c, pgxPool = p\<rparr>"

text \<open>The result is the pair of a map (\<open>None\<close> for the nil map) and an error.\<close>

definition GetUserLotteryStats ::
  "'pool LotteryDataWarehouse \<Rightarrow> string \<Rightarrow> (LotteryType \<rightharpoonup> int) option \<times> error option" where
  "GetUserLotteryStats ldw userID = (None, None)"

text \<open>
  \<^verbatim>\<open>CreateLotteryTicket\<close> reads the clock twice: \<open>now1\<close> for the identity, \<open>now2\<close> for
  \<^verbatim>\<open>BetTime\<close>. The fields it does not set have Go's zero values.
\<close>

definition CreateLotteryTicket ::
  "Time \<Rightarrow> Time \<Rightarrow> LotteryType \<Rightarrow> string \<Rightarrow> int list list \<Rightarrow> LotteryTicket" where
  "CreateLotteryTicket now1 now2 lotteryType userID numbers =
     \<lparr>ID = fmt_d (UnixNano now1) @ ''_'' @ userID,
      UserID = userID,
      LotteryType = lotteryType,
      Numbers = numbers,
      BetAmount = 0,
      BetTime = now2,
      Multiple = 0,
      PlayType = [],
      Status = Pending\<rparr>"

text \<open>
  The first \<^verbatim>\<open>main\<close>, from the stores as they are once connected: it creates the ticket,
  saves it and caches it, dropping both returned errors. The result is the pair of stores
  after the run.
\<close>

definition main ::
  "Time \<Rightarrow> Time \<Rightarrow> write_fault option \<Rightarrow> (LotteryTicket \<Rightarrow> error + string) \<Rightarrow> error option
     \<Rightarrow> MongoDBStorageStrategy \<Rightarrow> RedisCacheStrategy \<Rightarrow> MongoDBStorageStrategy \<times> RedisCacheStrategy" where
  "main now1 now2 insertFault marshal setFault mongoStrategy redisCache =
     (let ticket = CreateLotteryTicket now1 now2 DoubleBall ''user123'' [[1, 2, 3, 4, 5, 6], [7]];
          mongoStrategy' = snd (MongoDBStorageStrategy_SaveTicket insertFault mongoStrategy ticket);
          redisCache' = snd (CacheTicket marshal setFault redisCache ticket)
      in (mongoStrategy', redisCache'))"

section \<open>ticket.go, second declarations: repository and service\<close>

type_synonym LotteryType' = string

definition DoubleBall' :: LotteryType' where "DoubleBall' = ''DOUBLE_BALL''"
definition ArrangeV5' :: LotteryType' where "ArrangeV5' = ''ARRANGE_V5''"
definition SuperLotto' :: LotteryType' where "SuperLotto' = ''SUPER_LOTTO''"
definition SelectNine' :: LotteryType' where "SelectNine' = ''SELECT_NINE''"
definition FootballLottery' :: LotteryType' where "FootballLottery' = ''FOOTBALL_LOTTERY''"
definition BasketballLottery' :: LotteryType' where "BasketballLottery' = ''BASKETBALL_LOTTERY''"
definition SingleMatch' :: LotteryType' where "SingleMatch' = ''SINGLE_MATCH''"
definition SevenHappy' :: LotteryType' where "SevenHappy' = ''SEVEN_HAPPY''"
definition Happy8' :: LotteryType' where "Happy8' = ''HAPPY_8''"
definition Welfare3D' :: LotteryType' where "Welfare3D' = ''WELFARE_3D''"

type_synonym BetType = string

definition DirectBet :: BetType where "DirectBet = ''DIRECT''"
definition GroupBet :: BetType where "GroupBet = ''GROUP''"
definition CombineBet :: BetType where "CombineBet = ''COMBINE''"
definition SingleMatchBet :: BetType where "SingleMatchBet = ''SINGLE_MATCH''"

type_synonym PrizeLevel = string

definition FirstPrize :: PrizeLevel where "FirstPrize = ''FIRST''"
definition SecondPrize :: PrizeLevel where "SecondPrize = ''SECOND''"
definition ThirdPrize :: PrizeLevel where "ThirdPrize = ''THIRD''"

record LotteryTicket' =
  ID' :: UUID
  UserID' :: UUID
  LotteryType' :: LotteryType'
  BetType :: BetType
  Numbers' :: "int list list"
  BetAmount' :: float64
  Multiple' :: int
  IssueNumber :: string
  BetTime' :: Time
  Status' :: TicketStatus

record PrizeInfo =
  Level :: PrizeLevel
  WinnerCount :: int
  PrizeAmount :: float64

record DrawResult =
  dr_ID :: UUID
  dr_LotteryType :: LotteryType'
  dr_IssueNumber :: string
  DrawTime :: Time
  WinningNumbers :: "int list"
  Jackpot :: float64
  Prizes :: "PrizeInfo list"

text \<open>
  The repository's state is its two collections; its logger only writes log lines and is
  left out, as is the one of the service. The constant \<^verbatim>\<open>SingleMatch\<close> of type
  \<^verbatim>\<open>BetType\<close>, declared beside the one of type \<^verbatim>\<open>LotteryType\<close>, is \<open>SingleMatchBet\<close>.
\<close>

record MongoLotteryRepository =
  ticketCollection :: "LotteryTicket' list"
  resultCollection :: "DrawResult list"

definition stored_LotteryTicket' :: "LotteryTicket' \<Rightarrow> LotteryTicket'" where
  "stored_LotteryTicket' ticket = ticket\<lparr>BetTime' := bsonDate (BetTime' ticket)\<rparr>"


definition MongoLotteryRepository_SaveTicket ::
  "write_fault option \<Rightarrow> MongoLotteryRepository \<Rightarrow> LotteryTicket'
     \<Rightarrow> error option \<times> MongoLotteryRepository" where
  "MongoLotteryRepository_SaveTicket fault r ticket =
     (case InsertOne fault ID' (ticketCollection r) (stored_LotteryTicket' ticket) of
        (err, coll) \<Rightarrow> (err, r\<lparr>ticketCollection := coll\<rparr>))"


definition MongoLotteryRepository_GetTicketsByUser ::
  "error option \<Rightarrow> error option \<Rightarrow> MongoLotteryRepository \<Rightarrow> UUID \<Rightarrow> error + LotteryTicket' list" where
  "MongoLotteryRepository_GetTicketsByUser findFault allFault r userID =
     (case Find findFault (\<lambda>t. UserID' t = userID) (ticketCollection r) of
        Inl err \<Rightarrow> Inl err
      | Inr cursor \<Rightarrow>
          (case cursor_All allFault cursor of
             (tickets, Some err) \<Rightarrow> Inl err
           | (tickets, None) \<Rightarrow> Inr tickets))"


text \<open>
  The service holds the repository, so its methods take and return the repository's
  state. \<^verbatim>\<open>PlaceBet\<close> draws a UUID (\<open>newID\<close>) and reads the clock twice (\<open>now1\<close> for
  \<^verbatim>\<open>BetTime\<close>, \<open>now2\<close> for the issue number), \<^verbatim>\<open>RecordDrawResult\<close> likewise
  (\<open>now1\<close> for \<^verbatim>\<open>DrawTime\<close>). The result is the returned pair, \<open>Inl\<close> for
  \<^verbatim>\<open>(nil, err)\<close>, with the repository after the call.
\<close>

definition LotteryService_PlaceBet ::
  "write_fault option \<Rightarrow> UUID \<Rightarrow> Time \<Rightarrow> Time \<Rightarrow> MongoLotteryRepository
     \<Rightarrow> UUID \<Rightarrow> LotteryType' \<Rightarrow> int list list \<Rightarrow> float64
     \<Rightarrow> (error + LotteryTicket') \<times> MongoLotteryRepository" where
  "LotteryService_PlaceBet fault newID now1 now2 s userID lotteryType numbers betAmount =
     (let ticket =
        \<lparr>ID' = newID,
         UserID' = userID,
         LotteryType' = lotteryType,
         BetType = [],
         Numbers' = numbers,
         BetAmount' = betAmount,
         Multiple' = 0,
         IssueNumber = fmt_d (Unix now2),
         BetTime' = now1,
         Status' = Pending\<rparr>
      in case MongoLotteryRepository_SaveTicket fault s ticket of
           (Some err, s') \<Rightarrow> (Inl err, s')
         | (None, s') \<Rightarrow> (Inr ticket, s'))"


section \<open>The ticket ledger and the canonical form, modelled from the spec\<close>

text \<open>
  Modelled from the spec: the errors \<open>NotFound\<close> and \<open>InvalidTransition\<close> of the
  ledger (sections 4.2 and 7). The source declares no error value of its own.
\<close>

datatype LedgerError = NotFound | InvalidTransition

text \<open>
  Modelled from the spec: the ledger's ticket, the ticket of ticket.go with the computed
  payout that settlement writes beside the status (section 3), and the ledger, which owns
  the tickets keyed by identity. The struct of ticket.go has no payout field and the source
  has no store keyed by identity.
\<close>

record LedgerTicket = LotteryTicket' +
  Payout :: float64

type_synonym Ledger = "UUID \<rightharpoonup> LedgerTicket"

text \<open>
  Modelled from the spec: the edges of the status state machine (section 3),
  \<open>Pending\<close> to \<open>Won\<close> or \<open>Lost\<close> on settlement and \<open>Won\<close> to \<open>Claimed\<close> on
  claim; the spec's \<open>Won\<close> is the constant \<^verbatim>\<open>Winning\<close> of ticket.go. The source declares
  the four statuses and no function that changes one.
\<close>

definition legalTransition :: "TicketStatus \<Rightarrow> TicketStatus \<Rightarrow> bool" where
  "legalTransition old new =
     ((old = Pending \<and> (new = Winning \<or> new = Lost)) \<or> (old = Winning \<and> new = Claimed))"

text \<open>
  Modelled from the spec: \<open>transition(ticketID, newStatus, payoutAmount)\<close> of section
  4.2, which enforces the state machine, fails with \<open>InvalidTransition\<close> on an illegal
  transition leaving the ticket unchanged, and returns the updated ticket otherwise. No
  such function is in the source.
\<close>

definition transition ::
  "Ledger \<Rightarrow> UUID \<Rightarrow> TicketStatus \<Rightarrow> float64 \<Rightarrow> (LedgerError + LedgerTicket) \<times> Ledger" where
  "transition ledger ticketID newStatus payoutAmount =
     (case ledger ticketID of
        None \<Rightarrow> (Inl NotFound, ledger)
      | Some t \<Rightarrow>
          if legalTransition (Status' t) newStatus
          then (Inr (t\<lparr>Status' := newStatus, Payout := payoutAmount\<rparr>),
                ledger(ticketID \<mapsto> t\<lparr>Status' := newStatus, Payout := payoutAmount\<rparr>))
          else (Inl InvalidTransition, ledger))"

text \<open>
  Modelled from the spec: \<open>claimTicket(ticketID)\<close> of section 6, the transition to
  \<open>Claimed\<close>, which keeps the payout the ticket has. No such function is in the source.
\<close>

definition claimTicket :: "Ledger \<Rightarrow> UUID \<Rightarrow> (LedgerError + LedgerTicket) \<times> Ledger" where
  "claimTicket ledger ticketID =
     (case ledger ticketID of
        None \<Rightarrow> (Inl NotFound, ledger)
      | Some t \<Rightarrow> transition ledger ticketID Claimed (Payout t))"

text \<open>
  Modelled from the spec: canonicalization of a selection (section 4.1 and the glossary):
  for an order-irrelevant product every group is sorted, for an order-sensitive one the
  groups are kept as they are. Which products are order-sensitive is a table the spec
  leaves to each product variant; it is the parameter \<open>orderMatters\<close>. The source has
  neither a validation nor a canonicalization function.
\<close>

definition canonicalize ::
  "(LotteryType' \<Rightarrow> bool) \<Rightarrow> LotteryType' \<Rightarrow> int list list \<Rightarrow> int list list" where
  "canonicalize orderMatters product numberGroups =
     (if orderMatters product then numberGroups else map sort numberGroups)"

section \<open>Theorems\<close>

subsection \<open>Facts about the collection model and the two service calls\<close>



lemma PlaceBet_eval:
  "LotteryService_PlaceBet fault newID now1 now2 s userID lotteryType numbers betAmount =
     (let ticket = \<lparr>ID' = newID, UserID' = userID, LotteryType' = lotteryType, BetType = [],
                     Numbers' = numbers, BetAmount' = betAmount, Multiple' = 0,
                     IssueNumber = fmt_d (Unix now2), BetTime' = now1, Status' = Pending\<rparr>;
          stored = ticket\<lparr>BetTime' := bsonDate now1\<rparr>;
          written = s\<lparr>ticketCollection := ticketCollection s @ [stored]\<rparr>
      in case fault of
           Some (NotWritten e) \<Rightarrow> (Inl e, s)
         | Some (Written e) \<Rightarrow>
             (Inl e, if newID \<in> set (map ID' (ticketCollection s)) then s else written)
         | None \<Rightarrow>
             if newID \<in> set (map ID' (ticketCollection s)) then (Inl DuplicateKeyError, s)
             else (Inr ticket, written))"
  by (simp add: LotteryService_PlaceBet_def MongoLotteryRepository_SaveTicket_def
      InsertOne_def stored_LotteryTicket'_def Let_def split: option.splits write_fault.splits)

subsection \<open>ticket.go: recording draw results\<close>




subsection \<open>ticket.go: placing bets\<close>

lemma PlaceBet_Pending:
  "LotteryService_PlaceBet fault newID now1 now2 s userID lotteryType numbers betAmount
     = (Inr t, s') \<Longrightarrow> Status' t = Pending \<and> ID' t = newID"
  by (auto simp: PlaceBet_eval Let_def split: option.splits write_fault.splits if_splits)




subsection \<open>ticket.go: identities and status at creation\<close>

lemma CreateLotteryTicket_Pending:
  "Status (CreateLotteryTicket now1 now2 lotteryType userID numbers) = Pending"
  by (simp add: CreateLotteryTicket_def)

text \<open>
  C5. Every created ticket is \<open>Pending\<close> (the two lemmas \<open>CreateLotteryTicket_Pending\<close>
  and \<open>PlaceBet_Pending\<close>), but the identity of \<open>CreateLotteryTicket\<close> is not unique:
  it is determined by the first clock reading and the user alone, so two creations for one
  user at one reading share it whatever else differs. At the reading \<open>1000\<close> for
  \<open>user123\<close> the two tickets differ, both have the identity \<open>1000_user123\<close>, and
  saving the second after the first is refused as a duplicate key.
\<close>

theorem CreateLotteryTicket_identity_collision:
  "ID (CreateLotteryTicket now1 now2 lotteryType userID numbers) =
     ID (CreateLotteryTicket now1 now2' lotteryType' userID numbers') \<and>
   ID (CreateLotteryTicket 1000 1001 DoubleBall ''user123'' [[1, 2, 3, 4, 5, 6], [7]])
     = ''1000_user123'' \<and>
   ID (CreateLotteryTicket 1000 1002 ArrangeV3 ''user123'' [[4, 2, 9]])
     = ''1000_user123'' \<and>
   CreateLotteryTicket 1000 1001 DoubleBall ''user123'' [[1, 2, 3, 4, 5, 6], [7]]
     \<noteq> CreateLotteryTicket 1000 1002 ArrangeV3 ''user123'' [[4, 2, 9]] \<and>
   fst (MongoDBStorageStrategy_SaveTicket None
          (snd (MongoDBStorageStrategy_SaveTicket None \<lparr>ticketColl = [], resultColl = []\<rparr>
                  (CreateLotteryTicket 1000 1001 DoubleBall ''user123'' [[1, 2, 3, 4, 5, 6], [7]])))
          (CreateLotteryTicket 1000 1002 ArrangeV3 ''user123'' [[4, 2, 9]]))
     = Some DuplicateKeyError"
  by (simp add: CreateLotteryTicket_def MongoDBStorageStrategy_SaveTicket_def InsertOne_def
      stored_LotteryTicket_def UnixNano_def fmt_d_def decimal.simps digit_def)

subsection \<open>ticket.go: listing a user's tickets\<close>

lemma GetTicketsByUser_ok:
  "MongoLotteryRepository_GetTicketsByUser None None s u
     = Inr (filter (\<lambda>t. UserID' t = u) (ticketCollection s))"
  by (simp add: MongoLotteryRepository_GetTicketsByUser_def Find_def cursor_All_def)

lemma PlaceBet_store:
  assumes "LotteryService_PlaceBet fault newID now1 now2 s userID lotteryType numbers betAmount
             = (res, s')"
  shows "s' = s \<or>
         s' = s\<lparr>ticketCollection := ticketCollection s @
               [\<lparr>ID' = newID, UserID' = userID, LotteryType' = lotteryType, BetType = [],
                 Numbers' = numbers, BetAmount' = betAmount, Multiple' = 0,
                 IssueNumber = fmt_d (Unix now2), BetTime' = bsonDate now1,
                 Status' = Pending\<rparr>]\<rparr>"
  using assms
  by (simp add: PlaceBet_eval Let_def split: option.splits write_fault.splits if_splits)

lemma PlaceBet_Inr:
  assumes "LotteryService_PlaceBet fault newID now1 now2 s userID lotteryType numbers betAmount
             = (Inr t, s')"
  shows "s' = s\<lparr>ticketCollection := ticketCollection s @ [t\<lparr>BetTime' := bsonDate now1\<rparr>]\<rparr> \<and>
         UserID' t = userID \<and> BetTime' t = now1"
  using assms
  by (auto simp: PlaceBet_eval Let_def split: option.splits write_fault.splits if_splits)

lemma GetTicketsByUser_Inr:
  "MongoLotteryRepository_GetTicketsByUser findFault allFault s u = Inr ts \<Longrightarrow>
     ts = filter (\<lambda>t. UserID' t = u) (ticketCollection s)"
  by (auto simp: MongoLotteryRepository_GetTicketsByUser_def Find_def cursor_All_def
      split: option.splits)

lemma FindTicketsByUser_ok:
  "MongoDBStorageStrategy_FindTicketsByUser None None m v
     = (filter (\<lambda>x. UserID x = v) (ticketColl m), None)"
  by (simp add: MongoDBStorageStrategy_FindTicketsByUser_def Find_def cursor_All_def)

lemma SaveTicket_acknowledged:
  "fst (MongoDBStorageStrategy_SaveTicket fault m ticket) = None \<Longrightarrow>
     snd (MongoDBStorageStrategy_SaveTicket fault m ticket)
       = m\<lparr>ticketColl := ticketColl m @ [stored_LotteryTicket ticket]\<rparr>"
  by (auto simp: MongoDBStorageStrategy_SaveTicket_def InsertOne_def
      split: option.splits write_fault.splits if_splits)

text \<open>
  C7, as stated: the listing is ordered by creation time, newest first. It fails on the
  code: after two bets of user \<open>7\<close>, placed at the seconds 1 and 2, the listing has the
  ticket of second 1 first.
\<close>

theorem GetTicketsByUser_newest_first_counterexample:
  "MongoLotteryRepository_GetTicketsByUser None None
     (snd (LotteryService_PlaceBet None 2 2000000000 2000000000
        (snd (LotteryService_PlaceBet None 1 1000000000 1000000000
                \<lparr>ticketCollection = [], resultCollection = []\<rparr>
                7 DoubleBall' [[1, 2, 3, 4, 5, 6], [7]] 2))
        7 DoubleBall' [[8, 9, 10, 11, 12, 13], [14]] 2))
     7
   = Inr [\<lparr>ID' = 1, UserID' = 7, LotteryType' = ''DOUBLE_BALL'', BetType = [],
            Numbers' = [[1, 2, 3, 4, 5, 6], [7]], BetAmount' = 2, Multiple' = 0,
            IssueNumber = ''1'', BetTime' = 1000000000, Status' = Pending\<rparr>,
          \<lparr>ID' = 2, UserID' = 7, LotteryType' = ''DOUBLE_BALL'', BetType = [],
            Numbers' = [[8, 9, 10, 11, 12, 13], [14]], BetAmount' = 2, Multiple' = 0,
            IssueNumber = ''2'', BetTime' = 2000000000, Status' = Pending\<rparr>]"
  by (simp add: GetTicketsByUser_ok LotteryService_PlaceBet_def
      MongoLotteryRepository_SaveTicket_def InsertOne_def stored_LotteryTicket'_def bsonDate_def
      DoubleBall'_def fmt_d_def decimal.simps digit_def Unix_def Let_def)

text \<open>
  C7, amended: the listing is exactly the stored tickets of the user, as stored (the bet
  time at the precision of a stored date), in the order in which they were inserted, with
  no sort applied. After a bet of the user the listing is the listing before it, followed
  by the new ticket when the bet was stored and by nothing otherwise; the listings of other
  users do not change. The same holds for \<open>FindTicketsByUser\<close> and \<open>SaveTicket\<close> of
  the storage strategy.
\<close>

theorem GetTicketsByUser_insertion_order:
  assumes "MongoLotteryRepository_GetTicketsByUser findFault allFault s u = Inr ts"
    and "LotteryService_PlaceBet fault newID now1 now2 s u lotteryType numbers betAmount
           = (res, s')"
  shows "ts = filter (\<lambda>x. UserID' x = u) (ticketCollection s) \<and>
         (\<forall>t. res = Inr t \<longrightarrow>
            MongoLotteryRepository_GetTicketsByUser None None s' u =
              Inr (ts @ [t\<lparr>BetTime' := bsonDate now1\<rparr>])) \<and>
         (MongoLotteryRepository_GetTicketsByUser None None s' u = Inr ts \<or>
          MongoLotteryRepository_GetTicketsByUser None None s' u =
            Inr (ts @ [\<lparr>ID' = newID, UserID' = u, LotteryType' = lotteryType, BetType = [],
                        Numbers' = numbers, BetAmount' = betAmount, Multiple' = 0,
                        IssueNumber = fmt_d (Unix now2), BetTime' = bsonDate now1,
                        Status' = Pending\<rparr>])) \<and>
         (u' \<noteq> u \<longrightarrow>
            MongoLotteryRepository_GetTicketsByUser None None s' u' =
            MongoLotteryRepository_GetTicketsByUser None None s u') \<and>
         MongoDBStorageStrategy_FindTicketsByUser None None m v =
           (filter (\<lambda>x. UserID x = v) (ticketColl m), None) \<and>
         (fst (MongoDBStorageStrategy_SaveTicket fault m ticket) = None \<longrightarrow>
            fst (MongoDBStorageStrategy_FindTicketsByUser None None
                   (snd (MongoDBStorageStrategy_SaveTicket fault m ticket)) (UserID ticket)) =
            fst (MongoDBStorageStrategy_FindTicketsByUser None None m (UserID ticket)) @
              [stored_LotteryTicket ticket])"
proof -
  have ts: "ts = filter (\<lambda>x. UserID' x = u) (ticketCollection s)"
    by (rule GetTicketsByUser_Inr [OF assms(1)])
  define stored where "stored =
    \<lparr>ID' = newID, UserID' = u, LotteryType' = lotteryType, BetType = [],
      Numbers' = numbers, BetAmount' = betAmount, Multiple' = 0,
      IssueNumber = fmt_d (Unix now2), BetTime' = bsonDate now1, Status' = Pending\<rparr>"
  from PlaceBet_store [OF assms(2)]
  have shape: "s' = s \<or> s' = s\<lparr>ticketCollection := ticketCollection s @ [stored]\<rparr>"
    unfolding stored_def .
  have ok: "\<forall>t. res = Inr t \<longrightarrow>
        s' = s\<lparr>ticketCollection := ticketCollection s @ [t\<lparr>BetTime' := bsonDate now1\<rparr>]\<rparr> \<and>
        UserID' t = u"
    using PlaceBet_Inr assms(2) by blast
  have user: "UserID' stored = u"
    by (simp add: stored_def)
  have listed: "\<forall>t. res = Inr t \<longrightarrow>
            MongoLotteryRepository_GetTicketsByUser None None s' u =
              Inr (ts @ [t\<lparr>BetTime' := bsonDate now1\<rparr>])"
    using ok by (simp add: GetTicketsByUser_ok ts)
  have grows: "MongoLotteryRepository_GetTicketsByUser None None s' u = Inr ts \<or>
          MongoLotteryRepository_GetTicketsByUser None None s' u = Inr (ts @ [stored])"
    using shape user by (auto simp: GetTicketsByUser_ok ts)
  have others: "u' \<noteq> u \<longrightarrow>
            MongoLotteryRepository_GetTicketsByUser None None s' u' =
            MongoLotteryRepository_GetTicketsByUser None None s u'"
    using shape user by (auto simp: GetTicketsByUser_ok)
  have strategy: "fst (MongoDBStorageStrategy_SaveTicket fault m ticket) = None \<longrightarrow>
            fst (MongoDBStorageStrategy_FindTicketsByUser None None
                   (snd (MongoDBStorageStrategy_SaveTicket fault m ticket)) (UserID ticket)) =
            fst (MongoDBStorageStrategy_FindTicketsByUser None None m (UserID ticket)) @
              [stored_LotteryTicket ticket]"
    by (simp add: SaveTicket_acknowledged FindTicketsByUser_ok stored_LotteryTicket_def)
  from ts listed grows [unfolded stored_def] others strategy show ?thesis
    by (simp add: FindTicketsByUser_ok)
qed

text \<open>
  The witness: user \<open>7\<close> has one ticket of second 5 stored and places a bet at second 3
  (the clock went back): the new ticket is listed last although it is not the newest.
\<close>

theorem GetTicketsByUser_insertion_order_witness:
  "MongoLotteryRepository_GetTicketsByUser None None
     (snd (LotteryService_PlaceBet None 2 3000000000 3000000000
        \<lparr>ticketCollection =
           [\<lparr>ID' = 1, UserID' = 7, LotteryType' = ''HAPPY_8'', BetType = [],
             Numbers' = [[1, 2]], BetAmount' = 2, Multiple' = 0,
             IssueNumber = ''5'', BetTime' = 5000000000, Status' = Pending\<rparr>],
         resultCollection = []\<rparr>
        7 Happy8' [[3, 4]] 2))
     7
   = Inr [\<lparr>ID' = 1, UserID' = 7, LotteryType' = ''HAPPY_8'', BetType = [],
            Numbers' = [[1, 2]], BetAmount' = 2, Multiple' = 0,
            IssueNumber = ''5'', BetTime' = 5000000000, Status' = Pending\<rparr>,
          \<lparr>ID' = 2, UserID' = 7, LotteryType' = ''HAPPY_8'', BetType = [],
            Numbers' = [[3, 4]], BetAmount' = 2, Multiple' = 0,
            IssueNumber = ''3'', BetTime' = 3000000000, Status' = Pending\<rparr>]"
proof -
  let ?t1 = "\<lparr>ID' = 1, UserID' = 7, LotteryType' = ''HAPPY_8'', BetType = [],
             Numbers' = [[1, 2]], BetAmount' = 2, Multiple' = 0,
             IssueNumber = ''5'', BetTime' = 5000000000, Status' = Pending\<rparr>"
  let ?t2 = "\<lparr>ID' = 2, UserID' = 7, LotteryType' = ''HAPPY_8'', BetType = [],
            Numbers' = [[3, 4]], BetAmount' = 2, Multiple' = 0,
            IssueNumber = ''3'', BetTime' = 3000000000, Status' = Pending\<rparr>"
  let ?s = "\<lparr>ticketCollection = [?t1], resultCollection = []\<rparr>"
  let ?c = "LotteryService_PlaceBet None 2 3000000000 3000000000 ?s 7 Happy8' [[3, 4]] 2"
  have before: "MongoLotteryRepository_GetTicketsByUser None None ?s 7 = Inr [?t1]"
    by (simp add: GetTicketsByUser_ok)
  have placed: "fst ?c = Inr ?t2"
    by (simp add: PlaceBet_eval Happy8'_def fmt_d_def decimal.simps digit_def Unix_def Let_def)
  have call: "?c = (fst ?c, snd ?c)" by simp
  have date: "bsonDate 3000000000 = 3000000000"
    by (simp add: bsonDate_def)
  from GetTicketsByUser_insertion_order [OF before call] placed
  have "MongoLotteryRepository_GetTicketsByUser None None (snd ?c) 7 =
          Inr ([?t1] @ [?t2\<lparr>BetTime' := bsonDate 3000000000\<rparr>])"
    by blast
  then show ?thesis by (simp add: date)
qed


subsection \<open>ticket.go: the write sequence of the first main\<close>

text \<open>
  C8. When the insert into the authoritative store fails, \<open>main\<close> still writes the
  cache: the returned error is dropped, and the cache after the run is the cache after
  \<open>CacheTicket\<close> whatever the insert did; when the write was not applied the store is
  left as it was. With such a fault of the driver on an empty store and an empty cache,
  the store stays empty and the cache holds the ticket under its key.
\<close>

theorem main_caches_after_failed_save:
  "fst (main now1 now2 (Some (NotWritten e)) marshal setFault mongoStrategy redisCache)
     = mongoStrategy \<and>
   snd (main now1 now2 insertFault marshal setFault mongoStrategy redisCache) =
     snd (CacheTicket marshal setFault redisCache
            (CreateLotteryTicket now1 now2 DoubleBall ''user123'' [[1, 2, 3, 4, 5, 6], [7]])) \<and>
   ticketColl (fst (main 1000 1001 (Some (NotWritten (DriverError ''server selection timeout'')))
                     (\<lambda>t. Inr (''{id:'' @ ID t @ ''}'')) None
                     \<lparr>ticketColl = [], resultColl = []\<rparr> \<lparr>client = Map.empty\<rparr>)) = [] \<and>
   client (snd (main 1000 1001 (Some (NotWritten (DriverError ''server selection timeout'')))
                     (\<lambda>t. Inr (''{id:'' @ ID t @ ''}'')) None
                     \<lparr>ticketColl = [], resultColl = []\<rparr> \<lparr>client = Map.empty\<rparr>))
       ''ticket:1000_user123''
     = Some (''{id:1000_user123}'', 86400000000000)"
  by (simp add: main_def CreateLotteryTicket_def MongoDBStorageStrategy_SaveTicket_def
      InsertOne_def CacheTicket_def Hour_def UnixNano_def fmt_d_def decimal.simps digit_def Let_def)

subsection \<open>The status state machine, on the ledger modelled from the spec\<close>

text \<open>
  C3. For every ticket of the ledger, the legal transitions are exactly \<open>Pending\<close> to
  \<open>Won\<close>, \<open>Pending\<close> to \<open>Lost\<close> and \<open>Won\<close> to \<open>Claimed\<close>; every other
  transition fails with \<open>InvalidTransition\<close> and leaves the ledger, and so the ticket,
  unchanged, while a legal one returns the ticket with the new status and payout. In
  particular a claim succeeds from \<open>Won\<close> only: claiming a \<open>Pending\<close>, \<open>Lost\<close> or
  \<open>Claimed\<close> ticket fails, claiming a \<open>Won\<close> ticket moves it to \<open>Claimed\<close> and
  claiming it again fails; and no transition at all leaves \<open>Lost\<close> or \<open>Claimed\<close>,
  so none leads back to \<open>Pending\<close>.
\<close>

theorem transition_state_machine:
  assumes "ledger ticketID = Some t"
  shows "(legalTransition (Status' t) newStatus \<longleftrightarrow>
            (Status' t = Pending \<and> newStatus = Winning) \<or>
            (Status' t = Pending \<and> newStatus = Lost) \<or>
            (Status' t = Winning \<and> newStatus = Claimed)) \<and>
         (\<not> legalTransition (Status' t) newStatus \<longrightarrow>
            transition ledger ticketID newStatus payoutAmount = (Inl InvalidTransition, ledger)) \<and>
         (legalTransition (Status' t) newStatus \<longrightarrow>
            transition ledger ticketID newStatus payoutAmount =
              (Inr (t\<lparr>Status' := newStatus, Payout := payoutAmount\<rparr>),
               ledger(ticketID \<mapsto> t\<lparr>Status' := newStatus, Payout := payoutAmount\<rparr>))) \<and>
         (Status' t \<noteq> Winning \<longrightarrow> claimTicket ledger ticketID = (Inl InvalidTransition, ledger)) \<and>
         (Status' t = Winning \<longrightarrow>
            claimTicket ledger ticketID =
              (Inr (t\<lparr>Status' := Claimed\<rparr>), ledger(ticketID \<mapsto> t\<lparr>Status' := Claimed\<rparr>)) \<and>
            claimTicket (snd (claimTicket ledger ticketID)) ticketID =
              (Inl InvalidTransition, snd (claimTicket ledger ticketID))) \<and>
         (Status' t = Lost \<or> Status' t = Claimed \<longrightarrow>
            transition ledger ticketID newStatus payoutAmount = (Inl InvalidTransition, ledger)) \<and>
         (newStatus = Pending \<longrightarrow>
            transition ledger ticketID newStatus payoutAmount = (Inl InvalidTransition, ledger))"
  using assms
  by (cases "Status' t"; cases newStatus)
     (simp_all add: transition_def claimTicket_def legalTransition_def)

text \<open>
  The witness: a ledger with one \<open>Pending\<close> ticket. Claiming it fails and so does a
  transition to \<open>Pending\<close>, both leaving the ledger as it was.
\<close>

theorem transition_state_machine_witness:
  "claimTicket
     [1 \<mapsto> \<lparr>ID' = 1, UserID' = 7, LotteryType' = ''DOUBLE_BALL'', BetType = ''DIRECT'',
             Numbers' = [[1, 2, 3, 4, 5, 6], [7]], BetAmount' = 2, Multiple' = 1,
             IssueNumber = ''5'', BetTime' = 4000000000, Status' = Pending, Payout = 0\<rparr>]
     1
   = (Inl InvalidTransition,
      [1 \<mapsto> \<lparr>ID' = 1, UserID' = 7, LotteryType' = ''DOUBLE_BALL'', BetType = ''DIRECT'',
             Numbers' = [[1, 2, 3, 4, 5, 6], [7]], BetAmount' = 2, Multiple' = 1,
             IssueNumber = ''5'', BetTime' = 4000000000, Status' = Pending, Payout = 0\<rparr>]) \<and>
   transition
     [1 \<mapsto> \<lparr>ID' = 1, UserID' = 7, LotteryType' = ''DOUBLE_BALL'', BetType = ''DIRECT'',
             Numbers' = [[1, 2, 3, 4, 5, 6], [7]], BetAmount' = 2, Multiple' = 1,
             IssueNumber = ''5'', BetTime' = 4000000000, Status' = Pending, Payout = 0\<rparr>]
     1 Pending 0
   = (Inl InvalidTransition,
      [1 \<mapsto> \<lparr>ID' = 1, UserID' = 7, LotteryType' = ''DOUBLE_BALL'', BetType = ''DIRECT'',
             Numbers' = [[1, 2, 3, 4, 5, 6], [7]], BetAmount' = 2, Multiple' = 1,
             IssueNumber = ''5'', BetTime' = 4000000000, Status' = Pending, Payout = 0\<rparr>])"
proof -
  let ?t = "\<lparr>ID' = 1, UserID' = 7, LotteryType' = ''DOUBLE_BALL'', BetType = ''DIRECT'',
             Numbers' = [[1, 2, 3, 4, 5, 6], [7]], BetAmount' = 2, Multiple' = 1,
             IssueNumber = ''5'', BetTime' = 4000000000, Status' = Pending, Payout = 0\<rparr>"
  have stored: "[1 \<mapsto> ?t] (1 :: UUID) = Some ?t" by simp
  from transition_state_machine [where ledger = "[1 \<mapsto> ?t]" and ticketID = 1 and t = ?t
      and newStatus = Pending and payoutAmount = 0, OF stored]
  show ?thesis by simp
qed

subsection \<open>Canonicalization, modelled from the spec\<close>

text \<open>
  C6. Canonicalization is idempotent: for every product and every selection, hence for
  every pair that validation accepts, canonicalizing a canonical selection returns it
  unchanged. For an order-sensitive product the canonical form is the selection itself;
  for an order-irrelevant one every group of it is sorted and has the numbers of the group
  it comes from, and sorting it again changes nothing.
\<close>

theorem canonicalize_idempotent:
  "canonicalize orderMatters product (canonicalize orderMatters product numberGroups)
     = canonicalize orderMatters product numberGroups \<and>
   (if orderMatters product
    then canonicalize orderMatters product numberGroups = numberGroups
    else list_all sorted (canonicalize orderMatters product numberGroups) \<and>
         map mset (canonicalize orderMatters product numberGroups) = map mset numberGroups \<and>
         map sort (canonicalize orderMatters product numberGroups)
           = canonicalize orderMatters product numberGroups)"
  by (simp add: canonicalize_def sorted_sort_id list_all_iff)

subsection \<open>ticket.go: the statistics stub\<close>

text \<open>
  C9. For every warehouse, whatever its stores hold, and every user,
  \<open>GetUserLotteryStats\<close> returns the nil map and the nil error.
\<close>

theorem GetUserLotteryStats_nil:
  "GetUserLotteryStats ldw userID = (None, None)"
  by (simp add: GetUserLotteryStats_def)

subsection \<open>factory.go\<close>

text \<open>
  C10. For every \<open>betType\<close> other than exactly \<open>football\<close> and \<open>basketball\<close>,
  \<open>CreateBet\<close> returns nil (not an error), and calling \<open>PlaceBet\<close> on that result
  dereferences nil; the two exact strings, and only they, give a usable \<open>Bet\<close>, on which
  \<open>PlaceBet\<close> returns its message.
\<close>

theorem CreateBet_nil_unless_exact:
  "(betType \<noteq> ''football'' \<and> betType \<noteq> ''basketball'' \<longrightarrow>
      CreateBet betType = None \<and>
      Bet_PlaceBet fmt2f (CreateBet betType) amount = Inl NilPointerDereference) \<and>
   (CreateBet betType \<noteq> None \<longrightarrow> betType = ''football'' \<or> betType = ''basketball'') \<and>
   CreateBet ''football'' = Some FootballBet \<and>
   CreateBet ''basketball'' = Some BasketballBet \<and>
   Bet_PlaceBet fmt2f (CreateBet ''football'') amount =
     Inr (''Football bet placed: $'' @ fmt2f amount) \<and>
   Bet_PlaceBet fmt2f (CreateBet ''basketball'') amount =
     Inr (''Basketball bet placed: $'' @ fmt2f amount)"
  by (simp add: CreateBet_def Bet_PlaceBet_def)

theorem CreateBet_nil_unless_exact_witness:
  "CreateBet ''Football'' = None \<and>
   Bet_PlaceBet (\<lambda>a. ''100.00'') (CreateBet ''Football'') 100 = Inl NilPointerDereference \<and>
   CreateBet ''football'' = Some FootballBet \<and>
   Bet_PlaceBet (\<lambda>a. ''100.00'') (CreateBet ''football'') 100 =
     Inr ''Football bet placed: $100.00''"
  using CreateBet_nil_unless_exact [of "''Football''" "\<lambda>a. ''100.00''" 100]
  by (simp add: CreateBet_def)

end
